theory Spec2Isabelle
  imports Complex_Main
begin

section \<open>Shared Python helpers\<close>

text \<open>
  Python dictionaries with string keys are association lists with distinct keys;
  \<open>d.get(k, default)\<close> is \<open>dict_get\<close>, and \<open>not d\<close> holds exactly for the empty one.
  Python floats are idealised as reals.
\<close>

type_synonym 'v dict = "(string \<times> 'v) list"

definition dict_get :: "'v dict \<Rightarrow> string \<Rightarrow> 'v \<Rightarrow> 'v" where
  "dict_get d k dflt = (case map_of d k of None \<Rightarrow> dflt | Some v \<Rightarrow> v)"

definition digit_char :: "nat \<Rightarrow> char" where
  "digit_char n = ''0123456789'' ! n"

function str_nat :: "nat \<Rightarrow> string" where
  "str_nat n = (if n < 10 then [digit_char n] else str_nat (n div 10) @ [digit_char (n mod 10)])"
  by pat_completeness auto
termination
  by (relation "measure id") auto

declare str_nat.simps [simp del]

definition str_int :: "int \<Rightarrow> string" where
  "str_int i = (if i < 0 then CHR ''-'' # str_nat (nat (- i)) else str_nat (nat i))"

text \<open>Python 3 \<open>round\<close> on a float with no digits argument: round half to even.\<close>

definition py_round :: "real \<Rightarrow> int" where
  "py_round x =
     (let f = \<lfloor>x\<rfloor>; d = x - of_int f
      in if d < 1 / 2 then f
         else if 1 / 2 < d then f + 1
         else if even f then f else f + 1)"

definition np_mean :: "real list \<Rightarrow> real" where
  "np_mean xs = sum_list xs / real (length xs)"

definition np_std :: "real list \<Rightarrow> real" where
  "np_std xs = sqrt (np_mean (map (\<lambda>x. (x - np_mean xs)\<^sup>2) xs))"

section \<open>ml-controller/controller.py: \<open>MLScalingController\<close>\<close>

subsection \<open>External collaborators\<close>

text \<open>
  The Kubernetes apps client: reading a deployment either raises (\<open>Inl\<close> the message) or
  yields its \<open>spec.replicas\<close>, which may be \<open>None\<close>; patching raises or succeeds.
\<close>

record k8s_client =
  read_namespaced_deployment :: "string \<Rightarrow> string + int option"
  patch_namespaced_deployment :: "string \<Rightarrow> int \<Rightarrow> string + unit"

text \<open>
  The readings the controller takes from the outside world during one call of
  \<open>predict_scaling_decision\<close>: the three \<open>time.time()\<close> calls (cooldown check, the
  \<open>timestamp\<close> entry, the value stored after scaling), \<open>datetime.now()\<close>, and the
  answer of Prometheus.
\<close>

record world =
  t_check :: real
  t_stamp :: real
  t_store :: real
  hour_now :: real
  weekday_now :: real
  prometheus :: "string \<Rightarrow> real dict"

text \<open>
  \<open>self\<close>: the configuration read in \<open>__init__\<close> and the mutable registries.
  \<open>scaling_predictor\<close> is the entry \<open>'scaling_predictor'\<close> of \<open>self.models\<close> together
  with its scaler: absent, or a function from the feature list to the raw model output
  that may raise.
\<close>

record controller =
  confidence_threshold :: real
  scaling_cooldown :: int
  scaling_predictor :: "(real list \<Rightarrow> string + real) option"
  last_scaling_times :: "string \<rightharpoonup> real"
  k8s_apps_v1 :: "k8s_client option"

text \<open>
  The dictionary returned by \<open>predict_scaling_decision\<close>. The early return of the
  no-model path has no \<open>timestamp\<close>, \<open>metrics\<close> or \<open>executed\<close> entry: those are options.
\<close>

record prediction =
  service_name :: string
  current_replicas :: int
  recommended_replicas :: int
  confidence :: real
  reason :: string
  action :: string
  timestamp :: "real option"
  metrics :: "real dict option"
  executed :: "bool option"

record scale_result =
  sr_service_name :: string
  sr_replicas :: int
  sr_status :: string
  sr_message :: string

subsection \<open>\<open>get_current_replicas\<close> and \<open>scale_deployment\<close>\<close>

definition get_current_replicas :: "controller \<Rightarrow> string \<Rightarrow> int" where
  "get_current_replicas ctl svc =
     (case k8s_apps_v1 ctl of
        None \<Rightarrow> 1
      | Some c \<Rightarrow>
          (case read_namespaced_deployment c svc of
             Inl e \<Rightarrow> 1
           | Inr None \<Rightarrow> 1
           | Inr (Some n) \<Rightarrow> (if n = 0 then 1 else n)))"

definition scale_deployment :: "controller \<Rightarrow> string \<Rightarrow> int \<Rightarrow> scale_result" where
  "scale_deployment ctl svc replicas =
     (case k8s_apps_v1 ctl of
        None \<Rightarrow>
          \<lparr>sr_service_name = svc, sr_replicas = replicas, sr_status = ''simulated'',
           sr_message = ''Kubernetes not available''\<rparr>
      | Some c \<Rightarrow>
          (case read_namespaced_deployment c svc of
             Inl e \<Rightarrow>
               \<lparr>sr_service_name = svc, sr_replicas = replicas, sr_status = ''error'',
                sr_message = e\<rparr>
           | Inr d \<Rightarrow>
               (case patch_namespaced_deployment c svc replicas of
                  Inl e \<Rightarrow>
                    \<lparr>sr_service_name = svc, sr_replicas = replicas, sr_status = ''error'',
                     sr_message = e\<rparr>
                | Inr u \<Rightarrow>
                    \<lparr>sr_service_name = svc, sr_replicas = replicas, sr_status = ''success'',
                     sr_message = ''Scaled '' @ svc @ '' to '' @ str_int replicas @ '' replicas''\<rparr>)))"

subsection \<open>\<open>predict_scaling_decision\<close>\<close>

text \<open>
  \<open>1.0 - np.std(f) / (np.mean(f) + 1e-6)\<close> on the first four features. numpy does not
  raise on a zero divisor: the quotient is \<open>inf\<close> or \<open>nan\<close> (with a warning), so
  the stability is \<open>-inf\<close> or \<open>nan\<close>; \<open>None\<close> stands for both.
\<close>

definition feature_stability :: "real list \<Rightarrow> real option" where
  "feature_stability fs =
     (let f4 = take 4 fs; d = np_mean f4 + 1 / 1000000
      in if d = 0 then None else Some (1 - np_std f4 / d))"

text \<open>
  \<open>min(0.95, max(0.5, feature_stability))\<close>. Python's \<open>max(0.5, x)\<close> returns \<open>x\<close> only
  when \<open>x > 0.5\<close>, which is false for \<open>nan\<close> and for \<open>-inf\<close>.
\<close>

definition calc_confidence :: "real list \<Rightarrow> real" where
  "calc_confidence fs =
     (case feature_stability fs of
        None \<Rightarrow> min (95 / 100) (5 / 10)
      | Some v \<Rightarrow> min (95 / 100) (max (5 / 10) v))"

definition prepare_features :: "world \<Rightarrow> real dict \<Rightarrow> real list" where
  "prepare_features w m =
     [dict_get m ''cpu_usage'' 0,
      dict_get m ''memory_usage'' 0,
      dict_get m ''request_rate'' 0,
      dict_get m ''response_time'' 0,
      dict_get m ''hour_of_day'' (hour_now w),
      dict_get m ''day_of_week'' (weekday_now w)]"

definition clamp_replicas :: "int \<Rightarrow> int" where
  "clamp_replicas p = max 1 (min 10 p)"

text \<open>Lines 280 to 288: the action and its reason before the cooldown check.\<close>

definition determine_action :: "int \<Rightarrow> int \<Rightarrow> string \<times> string" where
  "determine_action predicted current =
     (if predicted > current then
        (''scale_up'',
         ''Predicted load increase requires '' @ str_int predicted @ '' replicas'')
      else if predicted < current then
        (''scale_down'',
         ''Predicted load decrease allows reduction to '' @ str_int predicted @ '' replicas'')
      else (''none'', ''Current scaling is optimal''))"

text \<open>Lines 290 to 294: the cooldown check overrides action and reason.\<close>

definition last_scaling :: "controller \<Rightarrow> string \<Rightarrow> real" where
  "last_scaling ctl svc = (case last_scaling_times ctl svc of None \<Rightarrow> 0 | Some t \<Rightarrow> t)"

definition cooldown_active :: "controller \<Rightarrow> world \<Rightarrow> string \<Rightarrow> bool" where
  "cooldown_active ctl w svc =
     (t_check w - last_scaling ctl svc < real_of_int (scaling_cooldown ctl))"

definition apply_cooldown :: "controller \<Rightarrow> world \<Rightarrow> string \<Rightarrow> string \<times> string \<Rightarrow> string \<times> string" where
  "apply_cooldown ctl w svc ar =
     (if cooldown_active ctl w svc then (''none'', ''Scaling cooldown period active'') else ar)"

text \<open>
  The result is \<open>Inl\<close> when the scaler or the model raises (the handler logs and re-raises);
  otherwise the returned dictionary, the result of \<open>scale_deployment\<close> when it was awaited
  (the source discards it), and \<open>self\<close> afterwards.
\<close>

definition predict_scaling_decision ::
  "controller \<Rightarrow> world \<Rightarrow> string \<Rightarrow> real dict
     \<Rightarrow> string + (prediction \<times> scale_result option \<times> controller)" where
  "predict_scaling_decision ctl w svc current_metrics0 =
     (let current_metrics = (if current_metrics0 = [] then prometheus w svc else current_metrics0);
          cur = get_current_replicas ctl svc
      in case scaling_predictor ctl of
           None \<Rightarrow>
             Inr (\<lparr>service_name = svc, current_replicas = cur, recommended_replicas = cur,
                   confidence = 0, reason = ''No ML model available'', action = ''none'',
                   timestamp = None, metrics = None, executed = None\<rparr>, None, ctl)
         | Some model \<Rightarrow>
             (let features = prepare_features w current_metrics
              in case model features of
                   Inl e \<Rightarrow> Inl e
                 | Inr raw \<Rightarrow>
                     (let predicted = clamp_replicas (py_round raw);
                          conf = calc_confidence features;
                          ar = apply_cooldown ctl w svc (determine_action predicted cur);
                          p = \<lparr>service_name = svc, current_replicas = cur,
                               recommended_replicas = predicted, confidence = conf,
                               reason = snd ar, action = fst ar,
                               timestamp = Some (t_stamp w), metrics = Some current_metrics,
                               executed = None\<rparr>
                      in if fst ar \<noteq> ''none'' \<and> confidence_threshold ctl \<le> conf
                            \<and> predicted \<noteq> cur
                         then Inr (p\<lparr>executed := Some True\<rparr>,
                                   Some (scale_deployment ctl svc predicted),
                                   ctl\<lparr>last_scaling_times :=
                                         (last_scaling_times ctl)(svc \<mapsto> t_store w)\<rparr>)
                         else Inr (p\<lparr>executed := Some False\<rparr>, None, ctl))))"

section \<open>apps/worker/tasks.py: metrics aggregation and alert checks\<close>

text \<open>
  The exceptions of the worker tasks. \<open>ValueError\<close> is what \<open>np.max\<close> raises on a
  zero-size array; \<open>DelayError\<close> stands for whatever \<open>.delay(...)\<close> raises when the
  task cannot be serialised or sent to the broker; \<open>InsufficientDataError\<close> is the name
  used by the specification, and no path of the source constructs it.
\<close>

datatype py_error = ValueError | DelayError | InsufficientDataError

text \<open>\<open>np.max\<close>: raises on an empty sequence. (\<open>np.mean\<close> of an empty sequence only warns.)\<close>

definition np_max :: "real list \<Rightarrow> py_error + real" where
  "np_max xs = (case xs of [] \<Rightarrow> Inl ValueError | y # ys \<Rightarrow> Inr (fold max ys y))"

record processed_metrics =
  pm_service_name :: string
  pm_timestamp :: string
  avg_cpu :: real
  max_cpu :: real
  avg_memory :: real
  max_memory :: real
  request_count :: real
  error_count :: real

text \<open>
  An alert dictionary. The \<open>message\<close> is a fixed text followed by the measured value
  printed with one decimal and a percent sign: the model keeps the text and the value.
\<close>

record alert =
  alert_type :: string
  severity :: string
  message :: "string \<times> real"
  service :: string

text \<open>The Celery broker: the tasks enqueued by \<open>.delay(...)\<close>, oldest first.\<close>

datatype task =
    CheckMetricAlerts string processed_metrics
  | SendNotification string alert

text \<open>
  \<open>task.delay(...)\<close>: \<open>delay_raises\<close> tells for which tasks serialisation or the
  connection to the broker fails; otherwise the task is appended to the queue.
\<close>

definition delay :: "(task \<Rightarrow> bool) \<Rightarrow> task list \<Rightarrow> task \<Rightarrow> py_error + task list" where
  "delay delay_raises broker t =
     (if delay_raises t then Inl DelayError else Inr (broker @ [t]))"

text \<open>The numeric entries of the dictionary built by \<open>process_metrics\<close>.\<close>

definition metrics_dict :: "processed_metrics \<Rightarrow> real dict" where
  "metrics_dict pm =
     [(''avg_cpu'', avg_cpu pm), (''max_cpu'', max_cpu pm),
      (''avg_memory'', avg_memory pm), (''max_memory'', max_memory pm),
      (''request_count'', request_count pm), (''error_count'', error_count pm)]"

text \<open>
  \<open>process_metrics\<close>: \<open>utcnow\<close> is \<open>datetime.utcnow().isoformat()\<close> at the call. The
  dictionary is built entry by entry, so the first empty list given to \<open>np.max\<close>
  raises; then \<open>check_metric_alerts.delay\<close> is called, inside the same \<open>try\<close>, and may
  raise as well. The handler logs and re-raises.
\<close>

definition process_metrics ::
  "string \<Rightarrow> (task \<Rightarrow> bool) \<Rightarrow> task list \<Rightarrow> string \<Rightarrow> real list dict
     \<Rightarrow> py_error + (processed_metrics \<times> task list)" where
  "process_metrics utcnow delay_raises broker svc metrics_data =
     (let cpu = dict_get metrics_data ''cpu_values'' [];
          mem = dict_get metrics_data ''memory_values'' []
      in case np_max cpu of
           Inl e \<Rightarrow> Inl e
         | Inr mx_cpu \<Rightarrow>
             (case np_max mem of
                Inl e \<Rightarrow> Inl e
              | Inr mx_mem \<Rightarrow>
                  (let pm = \<lparr>pm_service_name = svc, pm_timestamp = utcnow,
                             avg_cpu = np_mean cpu, max_cpu = mx_cpu,
                             avg_memory = np_mean mem, max_memory = mx_mem,
                             request_count = sum_list (dict_get metrics_data ''request_counts'' []),
                             error_count = sum_list (dict_get metrics_data ''error_counts'' [])\<rparr>
                   in case delay delay_raises broker (CheckMetricAlerts svc pm) of
                        Inl e \<Rightarrow> Inl e
                      | Inr broker' \<Rightarrow> Inr (pm, broker'))))"






section \<open>Concrete inputs\<close>

definition fixed_client :: "int option \<Rightarrow> bool \<Rightarrow> k8s_client" where
  "fixed_client r ok =
     \<lparr>read_namespaced_deployment = (\<lambda>svc. Inr r),
      patch_namespaced_deployment = (\<lambda>svc n. if ok then Inr () else Inl ''patch failed'')\<rparr>"

definition world_at :: "real \<Rightarrow> world" where
  "world_at now =
     \<lparr>t_check = now, t_stamp = now, t_store = now, hour_now = 12, weekday_now = 2,
      prometheus = (\<lambda>svc. [])\<rparr>"

definition constant_model :: "real \<Rightarrow> real list \<Rightarrow> string + real" where
  "constant_model raw fs = Inr raw"

definition default_controller ::
  "(real list \<Rightarrow> string + real) option \<Rightarrow> k8s_client option \<Rightarrow> controller" where
  "default_controller model k8s =
     \<lparr>confidence_threshold = 7 / 10, scaling_cooldown = 300, scaling_predictor = model,
      last_scaling_times = Map.empty, k8s_apps_v1 = k8s\<rparr>"

definition steady_metrics :: "real dict" where
  "steady_metrics =
     [(''cpu_usage'', 50), (''memory_usage'', 50), (''request_rate'', 50),
      (''response_time'', 50)]"

definition never_raises :: "task \<Rightarrow> bool" where
  "never_raises t = False"

definition sample_batch :: "real list dict" where
  "sample_batch =
     [(''cpu_values'', [10, 30]), (''memory_values'', [40, 60]),
      (''request_counts'', [100, 200]), (''error_counts'', [1, 2])]"

section \<open>Properties of \<open>predict_scaling_decision\<close>\<close>

subsection \<open>The two paths that return a dictionary\<close>

lemma psd_no_model:
  "scaling_predictor ctl = None \<Longrightarrow>
   predict_scaling_decision ctl w svc m =
     Inr (\<lparr>service_name = svc, current_replicas = get_current_replicas ctl svc,
           recommended_replicas = get_current_replicas ctl svc,
           confidence = 0, reason = ''No ML model available'', action = ''none'',
           timestamp = None, metrics = None, executed = None\<rparr>, None, ctl)"
  by (simp add: predict_scaling_decision_def Let_def)

lemma psd_no_model_fields:
  assumes "scaling_predictor ctl = None"
    and "predict_scaling_decision ctl w svc m = Inr (p, d, ctl')"
  shows "service_name p = svc \<and> current_replicas p = get_current_replicas ctl svc
         \<and> recommended_replicas p = current_replicas p \<and> confidence p = 0
         \<and> reason p = ''No ML model available'' \<and> action p = ''none''
         \<and> executed p = None \<and> d = None \<and> ctl' = ctl"
  using assms by (auto simp: psd_no_model)

lemma psd_fields:
  assumes "scaling_predictor ctl = Some model"
    and "predict_scaling_decision ctl w svc m = Inr (p, d, ctl')"
  shows "\<exists>raw cm. model (prepare_features w cm) = Inr raw
           \<and> cm = (if m = [] then prometheus w svc else m)
           \<and> service_name p = svc
           \<and> current_replicas p = get_current_replicas ctl svc
           \<and> recommended_replicas p = clamp_replicas (py_round raw)
           \<and> confidence p = calc_confidence (prepare_features w cm)
           \<and> action p = fst (apply_cooldown ctl w svc
                 (determine_action (recommended_replicas p) (current_replicas p)))
           \<and> reason p = snd (apply_cooldown ctl w svc
                 (determine_action (recommended_replicas p) (current_replicas p)))
           \<and> executed p = Some (action p \<noteq> ''none'' \<and> confidence_threshold ctl \<le> confidence p
                 \<and> recommended_replicas p \<noteq> current_replicas p)
           \<and> d = (if executed p = Some True
                  then Some (scale_deployment ctl svc (recommended_replicas p)) else None)
           \<and> ctl' = (if executed p = Some True
                      then ctl\<lparr>last_scaling_times := (last_scaling_times ctl)(svc \<mapsto> t_store w)\<rparr>
                      else ctl)"
  using assms
  by (auto simp: predict_scaling_decision_def Let_def split: sum.splits if_splits)

lemma calc_confidence_bounds: "1 / 2 \<le> calc_confidence fs \<and> calc_confidence fs \<le> 95 / 100"
  by (auto simp: calc_confidence_def min_def max_def split: option.splits)

lemma clamp_bounds: "1 \<le> clamp_replicas p \<and> clamp_replicas p \<le> 10"
  by (simp add: clamp_replicas_def)

lemma determine_action_none: "fst (determine_action a b) \<noteq> ''none'' \<longleftrightarrow> a \<noteq> b"
  by (simp add: determine_action_def)

lemma apply_cooldown_fst:
  "fst (apply_cooldown ctl w svc ar) \<noteq> ''none''
     \<longleftrightarrow> fst ar \<noteq> ''none'' \<and> \<not> cooldown_active ctl w svc"
  by (simp add: apply_cooldown_def)

lemma psd_gate:
  assumes "predict_scaling_decision ctl w svc m = Inr (p, d, ctl')"
  shows "executed p = Some True \<longleftrightarrow>
           recommended_replicas p \<noteq> current_replicas p
           \<and> confidence_threshold ctl \<le> confidence p
           \<and> \<not> cooldown_active ctl w svc"
proof (cases "scaling_predictor ctl")
  case None
  from psd_no_model_fields [OF None assms] show ?thesis by simp
next
  case (Some model)
  from psd_fields [OF Some assms] show ?thesis
    by (auto simp: apply_cooldown_fst determine_action_none)
qed

lemma psd_effects:
  assumes "predict_scaling_decision ctl w svc m = Inr (p, d, ctl')"
  shows "d = (if executed p = Some True
              then Some (scale_deployment ctl svc (recommended_replicas p)) else None)
         \<and> ctl' = (if executed p = Some True
                 then ctl\<lparr>last_scaling_times := (last_scaling_times ctl)(svc \<mapsto> t_store w)\<rparr>
                 else ctl)"
proof (cases "scaling_predictor ctl")
  case None
  from psd_no_model_fields [OF None assms] show ?thesis by simp
next
  case (Some model)
  from psd_fields [OF Some assms] show ?thesis by auto
qed

lemma psd_action:
  assumes "predict_scaling_decision ctl w svc m = Inr (p, d, ctl')"
  shows "(executed p = Some True \<longrightarrow> action p \<noteq> ''none'')
         \<and> (cooldown_active ctl w svc \<longrightarrow> action p = ''none'')"
proof (cases "scaling_predictor ctl")
  case None
  from psd_no_model_fields [OF None assms] show ?thesis by simp
next
  case (Some model)
  from psd_fields [OF Some assms] show ?thesis by (auto simp: apply_cooldown_def)
qed

lemma cooldown_no_execute:
  assumes "cooldown_active ctl w svc"
    and "predict_scaling_decision ctl w svc m = Inr (p, d, ctl')"
  shows "executed p \<noteq> Some True \<and> action p = ''none'' \<and> d = None \<and> ctl' = ctl
         \<and> (scaling_predictor ctl \<noteq> None \<longrightarrow>
              executed p = Some False \<and> reason p = ''Scaling cooldown period active'')"
proof -
  have ne: "executed p \<noteq> Some True"
    using psd_gate [OF assms(2)] assms(1) by simp
  have eff: "d = None \<and> ctl' = ctl" using psd_effects [OF assms(2)] ne by simp
  have act: "action p = ''none''" using psd_action [OF assms(2)] assms(1) by simp
  have "scaling_predictor ctl \<noteq> None \<longrightarrow>
       executed p = Some False \<and> reason p = ''Scaling cooldown period active''"
  proof
    assume "scaling_predictor ctl \<noteq> None"
    then obtain model where Some: "scaling_predictor ctl = Some model" by auto
    from psd_fields [OF Some assms(2)] assms(1)
    show "executed p = Some False \<and> reason p = ''Scaling cooldown period active''"
      by (auto simp: apply_cooldown_def)
  qed
  with ne eff act show ?thesis by simp
qed

subsection \<open>Runs on concrete inputs\<close>

lemmas eval_simps =
  predict_scaling_decision_def Let_def default_controller_def world_at_def fixed_client_def
  constant_model_def steady_metrics_def get_current_replicas_def scale_deployment_def
  prepare_features_def dict_get_def py_round_def clamp_replicas_def calc_confidence_def
  feature_stability_def np_std_def np_mean_def determine_action_def apply_cooldown_def
  cooldown_active_def last_scaling_def str_int_def str_nat.simps digit_char_def

text \<open>
  Service \<open>api\<close> with 2 replicas, a model answering 5, steady metrics (confidence 0.95),
  no earlier scaling: the decision scales up and the patch succeeds.
\<close>

lemma run_executes:
  "predict_scaling_decision
     (default_controller (Some (constant_model 5)) (Some (fixed_client (Some 2) True)))
     (world_at 1000) ''api'' steady_metrics
   = Inr (\<lparr>service_name = ''api'', current_replicas = 2, recommended_replicas = 5,
            confidence = 95 / 100, reason = ''Predicted load increase requires 5 replicas'',
            action = ''scale_up'', timestamp = Some 1000, metrics = Some steady_metrics,
            executed = Some True\<rparr>,
          Some \<lparr>sr_service_name = ''api'', sr_replicas = 5, sr_status = ''success'',
                sr_message = ''Scaled api to 5 replicas''\<rparr>,
          (default_controller (Some (constant_model 5)) (Some (fixed_client (Some 2) True)))
            \<lparr>last_scaling_times := [''api'' \<mapsto> 1000]\<rparr>)"
  by (simp add: eval_simps)

text \<open>The same call when \<open>patch_namespaced_deployment\<close> raises.\<close>

lemma run_patch_fails:
  "predict_scaling_decision
     (default_controller (Some (constant_model 5)) (Some (fixed_client (Some 2) False)))
     (world_at 1000) ''api'' steady_metrics
   = Inr (\<lparr>service_name = ''api'', current_replicas = 2, recommended_replicas = 5,
            confidence = 95 / 100, reason = ''Predicted load increase requires 5 replicas'',
            action = ''scale_up'', timestamp = Some 1000, metrics = Some steady_metrics,
            executed = Some True\<rparr>,
          Some \<lparr>sr_service_name = ''api'', sr_replicas = 5, sr_status = ''error'',
                sr_message = ''patch failed''\<rparr>,
          (default_controller (Some (constant_model 5)) (Some (fixed_client (Some 2) False)))
            \<lparr>last_scaling_times := [''api'' \<mapsto> 1000]\<rparr>)"
  by (simp add: eval_simps)

text \<open>A call \<open>dt\<close> seconds after a scaling at time 1000, for \<open>dt\<close> 60 and 0.\<close>

lemma run_cooldown:
  "predict_scaling_decision
     ((default_controller (Some (constant_model 5)) (Some (fixed_client (Some 2) True)))
            \<lparr>last_scaling_times := [''api'' \<mapsto> 1000]\<rparr>)
     (world_at 1060) ''api'' steady_metrics
   = Inr (\<lparr>service_name = ''api'', current_replicas = 2, recommended_replicas = 5,
            confidence = 95 / 100, reason = ''Scaling cooldown period active'',
            action = ''none'', timestamp = Some 1060, metrics = Some steady_metrics,
            executed = Some False\<rparr>,
          None,
          (default_controller (Some (constant_model 5)) (Some (fixed_client (Some 2) True)))
            \<lparr>last_scaling_times := [''api'' \<mapsto> 1000]\<rparr>)"
  by (simp add: eval_simps)

lemma run_repeated:
  "predict_scaling_decision
     ((default_controller (Some (constant_model 5)) (Some (fixed_client (Some 2) True)))
            \<lparr>last_scaling_times := [''api'' \<mapsto> 1000]\<rparr>)
     (world_at 1000) ''api'' steady_metrics
   = Inr (\<lparr>service_name = ''api'', current_replicas = 2, recommended_replicas = 5,
            confidence = 95 / 100, reason = ''Scaling cooldown period active'',
            action = ''none'', timestamp = Some 1000, metrics = Some steady_metrics,
            executed = Some False\<rparr>,
          None,
          (default_controller (Some (constant_model 5)) (Some (fixed_client (Some 2) True)))
            \<lparr>last_scaling_times := [''api'' \<mapsto> 1000]\<rparr>)"
  by (simp add: eval_simps)

text \<open>No model is loaded and the deployment has 50 replicas.\<close>

lemma run_no_model:
  "predict_scaling_decision
     (default_controller None (Some (fixed_client (Some 50) True)))
     (world_at 1000) ''api'' steady_metrics
   = Inr (\<lparr>service_name = ''api'', current_replicas = 50, recommended_replicas = 50,
            confidence = 0, reason = ''No ML model available'',
            action = ''none'', timestamp = None, metrics = None,
            executed = None\<rparr>,
          None,
          default_controller None (Some (fixed_client (Some 50) True)))"
  by (simp add: eval_simps)

text \<open>
  No model is loaded, nothing was scaled before, and \<open>SCALING_COOLDOWN\<close> is configured
  larger than the current epoch time, so that the cooldown comparison holds.
\<close>

lemma run_no_model_in_cooldown:
  "predict_scaling_decision
     ((default_controller None None)\<lparr>scaling_cooldown := 2000000000\<rparr>)
     (world_at 1700000000) ''api'' steady_metrics
   = Inr (\<lparr>service_name = ''api'', current_replicas = 1, recommended_replicas = 1,
            confidence = 0, reason = ''No ML model available'',
            action = ''none'', timestamp = None, metrics = None,
            executed = None\<rparr>,
          None,
          (default_controller None None)\<lparr>scaling_cooldown := 2000000000\<rparr>)"
  by (simp add: eval_simps)

text \<open>The model answers 57 and no Kubernetes client is available.\<close>

lemma run_clamped:
  "predict_scaling_decision
     (default_controller (Some (constant_model 57)) None)
     (world_at 1000) ''api'' steady_metrics
   = Inr (\<lparr>service_name = ''api'', current_replicas = 1, recommended_replicas = 10,
            confidence = 95 / 100, reason = ''Predicted load increase requires 10 replicas'',
            action = ''scale_up'', timestamp = Some 1000, metrics = Some steady_metrics,
            executed = Some True\<rparr>,
          Some \<lparr>sr_service_name = ''api'', sr_replicas = 10, sr_status = ''simulated'',
                sr_message = ''Kubernetes not available''\<rparr>,
          (default_controller (Some (constant_model 57)) None)
            \<lparr>last_scaling_times := [''api'' \<mapsto> 1000]\<rparr>)"
  by (simp add: eval_simps)

text \<open>The threshold lowered to 0.5.\<close>

lemma run_low_threshold:
  "predict_scaling_decision
     ((default_controller (Some (constant_model 5)) (Some (fixed_client (Some 2) True)))
        \<lparr>confidence_threshold := 1 / 2\<rparr>)
     (world_at 1000) ''api'' steady_metrics
   = Inr (\<lparr>service_name = ''api'', current_replicas = 2, recommended_replicas = 5,
            confidence = 95 / 100, reason = ''Predicted load increase requires 5 replicas'',
            action = ''scale_up'', timestamp = Some 1000, metrics = Some steady_metrics,
            executed = Some True\<rparr>,
          Some \<lparr>sr_service_name = ''api'', sr_replicas = 5, sr_status = ''success'',
                sr_message = ''Scaled api to 5 replicas''\<rparr>,
          (default_controller (Some (constant_model 5)) (Some (fixed_client (Some 2) True)))
            \<lparr>confidence_threshold := 1 / 2, last_scaling_times := [''api'' \<mapsto> 1000]\<rparr>)"
  by (simp add: eval_simps)

subsection \<open>The execution gate\<close>



subsection \<open>The cooldown\<close>

text \<open>
  Claim C2 as stated fails on the path without a model: there the early return comes
  before the cooldown check, so inside the cooldown the returned dictionary has no
  \<open>executed\<close> entry (it is not \<open>False\<close>) and its reason is \<open>No ML model available\<close>, not
  the cooldown one.
\<close>

theorem no_model_in_cooldown_not_false:
  "t_check (world_at 1700000000)
     - last_scaling ((default_controller None None)\<lparr>scaling_cooldown := 2000000000\<rparr>) ''api''
     < real_of_int (scaling_cooldown
         ((default_controller None None)\<lparr>scaling_cooldown := 2000000000\<rparr>))
   \<and> executed (fst (projr (predict_scaling_decision
         ((default_controller None None)\<lparr>scaling_cooldown := 2000000000\<rparr>)
         (world_at 1700000000) ''api'' steady_metrics))) \<noteq> Some False
   \<and> reason (fst (projr (predict_scaling_decision
         ((default_controller None None)\<lparr>scaling_cooldown := 2000000000\<rparr>)
         (world_at 1700000000) ''api'' steady_metrics))) = ''No ML model available''"
  by (simp add: run_no_model_in_cooldown)
     (simp add: world_at_def last_scaling_def default_controller_def)

text \<open>
  Claim C2, amended. For every input to the scaling decision: if the time since the last
  scaling of the service is strictly less than \<open>scaling_cooldown\<close>, the returned
  dictionary never has \<open>executed = True\<close>: its action is \<open>none\<close>, \<open>scale_deployment\<close> is
  not awaited and \<open>self\<close> is unchanged, whatever the confidence and the predicted replica
  count. When a model is loaded, \<open>executed\<close> is \<open>False\<close> and the reason is the cooldown
  one; when no model is loaded, the dictionary has no \<open>executed\<close> entry and the reason is
  \<open>No ML model available\<close>.
\<close>

theorem cooldown_blocks_execution:
  assumes "t_check w - last_scaling ctl svc < real_of_int (scaling_cooldown ctl)"
    and "predict_scaling_decision ctl w svc m = Inr (p, d, ctl')"
  shows "executed p \<noteq> Some True \<and> action p = ''none'' \<and> d = None \<and> ctl' = ctl
         \<and> (if scaling_predictor ctl = None
            then executed p = None \<and> reason p = ''No ML model available''
            else executed p = Some False \<and> reason p = ''Scaling cooldown period active'')"
proof -
  from assms(1) have active: "cooldown_active ctl w svc" by (simp add: cooldown_active_def)
  note blocked = cooldown_no_execute [OF active assms(2)]
  show ?thesis
  proof (cases "scaling_predictor ctl")
    case None
    from psd_no_model_fields [OF None assms(2)] blocked None show ?thesis by simp
  next
    case (Some model)
    with blocked show ?thesis by simp
  qed
qed

text \<open>
  With a model: sixty seconds after a scaling at time 1000, with the default cooldown of
  300 seconds, a confidence of 0.95 above the threshold and a prediction of 5 against 2
  replicas. Without a model: the run above.
\<close>

theorem cooldown_blocks_execution_witness:
  "t_check (world_at 1060)
     - last_scaling ((default_controller (Some (constant_model 5))
          (Some (fixed_client (Some 2) True)))\<lparr>last_scaling_times := [''api'' \<mapsto> 1000]\<rparr>) ''api''
     < real_of_int (scaling_cooldown ((default_controller (Some (constant_model 5))
          (Some (fixed_client (Some 2) True)))\<lparr>last_scaling_times := [''api'' \<mapsto> 1000]\<rparr>))
   \<and> scaling_predictor ((default_controller (Some (constant_model 5))
          (Some (fixed_client (Some 2) True)))\<lparr>last_scaling_times := [''api'' \<mapsto> 1000]\<rparr>)
       \<noteq> None
   \<and> predict_scaling_decision
       ((default_controller (Some (constant_model 5)) (Some (fixed_client (Some 2) True)))
            \<lparr>last_scaling_times := [''api'' \<mapsto> 1000]\<rparr>)
       (world_at 1060) ''api'' steady_metrics
     = Inr (\<lparr>service_name = ''api'', current_replicas = 2, recommended_replicas = 5,
            confidence = 95 / 100, reason = ''Scaling cooldown period active'',
            action = ''none'', timestamp = Some 1060, metrics = Some steady_metrics,
            executed = Some False\<rparr>,
          None,
          (default_controller (Some (constant_model 5)) (Some (fixed_client (Some 2) True)))
            \<lparr>last_scaling_times := [''api'' \<mapsto> 1000]\<rparr>)
   \<and> t_check (world_at 1700000000)
       - last_scaling ((default_controller None None)\<lparr>scaling_cooldown := 2000000000\<rparr>) ''api''
       < real_of_int (scaling_cooldown
           ((default_controller None None)\<lparr>scaling_cooldown := 2000000000\<rparr>))
   \<and> scaling_predictor ((default_controller None None)\<lparr>scaling_cooldown := 2000000000\<rparr>)
       = None
   \<and> executed (fst (projr (predict_scaling_decision
         ((default_controller None None)\<lparr>scaling_cooldown := 2000000000\<rparr>)
         (world_at 1700000000) ''api'' steady_metrics))) = None"
proof -
  have h: "t_check (world_at 1060)
     - last_scaling ((default_controller (Some (constant_model 5))
          (Some (fixed_client (Some 2) True)))\<lparr>last_scaling_times := [''api'' \<mapsto> 1000]\<rparr>) ''api''
     < real_of_int (scaling_cooldown ((default_controller (Some (constant_model 5))
          (Some (fixed_client (Some 2) True)))\<lparr>last_scaling_times := [''api'' \<mapsto> 1000]\<rparr>))"
    by (simp add: world_at_def last_scaling_def default_controller_def)
  have m: "scaling_predictor ((default_controller (Some (constant_model 5))
          (Some (fixed_client (Some 2) True)))\<lparr>last_scaling_times := [''api'' \<mapsto> 1000]\<rparr>)
       \<noteq> None"
    by (simp add: default_controller_def)
  have h': "t_check (world_at 1700000000)
       - last_scaling ((default_controller None None)\<lparr>scaling_cooldown := 2000000000\<rparr>) ''api''
       < real_of_int (scaling_cooldown
           ((default_controller None None)\<lparr>scaling_cooldown := 2000000000\<rparr>))"
    by (simp add: world_at_def last_scaling_def default_controller_def)
  have m': "scaling_predictor ((default_controller None None)\<lparr>scaling_cooldown := 2000000000\<rparr>)
       = None"
    by (simp add: default_controller_def)
  from cooldown_blocks_execution [OF h run_cooldown]
    cooldown_blocks_execution [OF h' run_no_model_in_cooldown]
    h m h' m' run_cooldown
  show ?thesis by (simp add: run_no_model_in_cooldown)
qed

subsection \<open>A failing dispatch\<close>

text \<open>
  Claim C3 as stated fails: when \<open>patch_namespaced_deployment\<close> raises,
  \<open>scale_deployment\<close> catches the error and returns a dictionary with status \<open>error\<close>,
  which \<open>predict_scaling_decision\<close> discards. The returned recommendation has
  \<open>executed = True\<close>, its reason is the scale-up text without the error, and the time of
  the call is stored in \<open>last_scaling_times\<close>.
\<close>

theorem failed_dispatch_still_executed:
  "predict_scaling_decision
     (default_controller (Some (constant_model 5)) (Some (fixed_client (Some 2) False)))
     (world_at 1000) ''api'' steady_metrics
   = Inr (\<lparr>service_name = ''api'', current_replicas = 2, recommended_replicas = 5,
            confidence = 95 / 100, reason = ''Predicted load increase requires 5 replicas'',
            action = ''scale_up'', timestamp = Some 1000, metrics = Some steady_metrics,
            executed = Some True\<rparr>,
          Some \<lparr>sr_service_name = ''api'', sr_replicas = 5, sr_status = ''error'',
                sr_message = ''patch failed''\<rparr>,
          (default_controller (Some (constant_model 5)) (Some (fixed_client (Some 2) False)))
            \<lparr>last_scaling_times := [''api'' \<mapsto> 1000]\<rparr>)"
  by (rule run_patch_fails)

text \<open>
  Claim C3, amended. The outcome of \<open>scale_deployment\<close> (success, simulated or error) has
  no influence on the recommendation: whenever \<open>scale_deployment\<close> is awaited, the
  recommendation has \<open>executed = True\<close> and the reason chosen from the replica counts, and
  \<open>last_scaling_times\<close> of the service is set to the time read after the call; whenever it
  is not awaited, \<open>executed\<close> is not true and \<open>self\<close> is unchanged. So the last scaling
  time is updated if and only if \<open>scale_deployment\<close> was called.
\<close>

theorem last_scaling_time_follows_scale_call:
  assumes "predict_scaling_decision ctl w svc m = Inr (p, d, ctl')"
  shows "if d = None then executed p \<noteq> Some True \<and> ctl' = ctl
         else d = Some (scale_deployment ctl svc (recommended_replicas p))
            \<and> executed p = Some True
            \<and> reason p = snd (determine_action (recommended_replicas p) (current_replicas p))
            \<and> ctl' = ctl\<lparr>last_scaling_times := (last_scaling_times ctl)(svc \<mapsto> t_store w)\<rparr>"
proof -
  have eff: "d = (if executed p = Some True
              then Some (scale_deployment ctl svc (recommended_replicas p)) else None)
         \<and> ctl' = (if executed p = Some True
                 then ctl\<lparr>last_scaling_times := (last_scaling_times ctl)(svc \<mapsto> t_store w)\<rparr>
                 else ctl)"
    by (rule psd_effects [OF assms])
  have rsn: "executed p = Some True \<longrightarrow>
      reason p = snd (determine_action (recommended_replicas p) (current_replicas p))"
  proof (cases "scaling_predictor ctl")
    case None
    from psd_no_model_fields [OF None assms] show ?thesis by simp
  next
    case (Some model)
    from psd_fields [OF Some assms] show ?thesis
      by (auto simp: apply_cooldown_def split: if_splits)
  qed
  from eff rsn show ?thesis by (auto split: if_splits)
qed

text \<open>Both branches: the run whose patch raises, and the run blocked by the cooldown.\<close>

theorem last_scaling_time_follows_scale_call_witness:
  "last_scaling_times
        ((default_controller (Some (constant_model 5)) (Some (fixed_client (Some 2) False)))
            \<lparr>last_scaling_times := [''api'' \<mapsto> 1000]\<rparr>) ''api'' = Some (t_store (world_at 1000))
   \<and> sr_status (scale_deployment
        (default_controller (Some (constant_model 5)) (Some (fixed_client (Some 2) False)))
        ''api'' 5) = ''error''
   \<and> executed \<lparr>service_name = ''api'', current_replicas = 2, recommended_replicas = 5,
            confidence = 95 / 100, reason = ''Scaling cooldown period active'',
            action = ''none'', timestamp = Some 1060, metrics = Some steady_metrics,
            executed = Some False\<rparr> \<noteq> Some True"
  using last_scaling_time_follows_scale_call [OF run_patch_fails]
    last_scaling_time_follows_scale_call [OF run_cooldown]
  by (simp add: world_at_def scale_deployment_def default_controller_def fixed_client_def)

subsection \<open>Bounds of the recommended replica count\<close>

text \<open>
  Claim C5 as stated fails on the path without a model: the early return recommends the
  current replica count as read from Kubernetes, which nothing clamps. With 50 replicas
  deployed the recommendation is 50.
\<close>

theorem recommended_replicas_unclamped_without_model:
  "predict_scaling_decision
     (default_controller None (Some (fixed_client (Some 50) True)))
     (world_at 1000) ''api'' steady_metrics
   = Inr (\<lparr>service_name = ''api'', current_replicas = 50, recommended_replicas = 50,
            confidence = 0, reason = ''No ML model available'',
            action = ''none'', timestamp = None, metrics = None,
            executed = None\<rparr>,
          None,
          default_controller None (Some (fixed_client (Some 50) True)))
   \<and> \<not> recommended_replicas (fst (projr (predict_scaling_decision
          (default_controller None (Some (fixed_client (Some 50) True)))
          (world_at 1000) ''api'' steady_metrics))) \<le> 10"
  by (simp add: run_no_model)

text \<open>
  Claim C5, amended. Whenever a model is loaded and a dictionary is returned,
  \<open>recommended_replicas\<close> lies between 1 and 10 (the bounds are the constants of the
  source), whatever the raw output of the model; on the path without a model,
  \<open>recommended_replicas\<close> is the current replica count reported by
  \<open>get_current_replicas\<close>.
\<close>

theorem recommended_replicas_bounds:
  assumes "predict_scaling_decision ctl w svc m = Inr (p, d, ctl')"
  shows "if scaling_predictor ctl = None
         then recommended_replicas p = get_current_replicas ctl svc
         else 1 \<le> recommended_replicas p \<and> recommended_replicas p \<le> 10"
proof (cases "scaling_predictor ctl")
  case None
  from psd_no_model_fields [OF None assms] None show ?thesis by simp
next
  case (Some model)
  from psd_fields [OF Some assms] Some show ?thesis
    by (auto simp: clamp_bounds)
qed

text \<open>A raw prediction of 57 is recommended as 10; without a model, 50 stays 50.\<close>

theorem recommended_replicas_bounds_witness:
  "scaling_predictor (default_controller (Some (constant_model 57)) None) \<noteq> None
   \<and> py_round 57 = 57
   \<and> recommended_replicas (fst (projr (predict_scaling_decision
         (default_controller (Some (constant_model 57)) None)
         (world_at 1000) ''api'' steady_metrics))) = 10
   \<and> scaling_predictor (default_controller None (Some (fixed_client (Some 50) True))) = None
   \<and> get_current_replicas (default_controller None (Some (fixed_client (Some 50) True))) ''api''
       = 50"
proof -
  have a: "scaling_predictor (default_controller (Some (constant_model 57)) None) \<noteq> None"
    and b: "scaling_predictor (default_controller None (Some (fixed_client (Some 50) True)))
              = None"
    by (simp_all add: default_controller_def)
  have c: "py_round 57 = 57" by (simp add: py_round_def)
  from recommended_replicas_bounds [OF run_clamped]
    recommended_replicas_bounds [OF run_no_model] a b c
  show ?thesis by (simp add: run_clamped)
qed

subsection \<open>Two calls in immediate succession\<close>

text \<open>
  Claim C6. Two calls for the same service with the same metrics, the second made on the
  state left by the first and before \<open>scaling_cooldown\<close> has elapsed since the first
  stored its scaling time: at most one of them returns \<open>executed = True\<close>. When both
  calls read the same time, the hypothesis says that the cooldown is positive.
\<close>

theorem second_call_blocked:
  assumes first: "predict_scaling_decision ctl w1 svc m = Inr (p1, d1, ctl1)"
    and second: "predict_scaling_decision ctl1 w2 svc m = Inr (p2, d2, ctl2)"
    and soon: "t_check w2 - t_store w1 < real_of_int (scaling_cooldown ctl)"
  shows "\<not> (executed p1 = Some True \<and> executed p2 = Some True)"
proof
  assume both: "executed p1 = Some True \<and> executed p2 = Some True"
  from psd_effects [OF first] both
  have ctl1: "ctl1 = ctl\<lparr>last_scaling_times := (last_scaling_times ctl)(svc \<mapsto> t_store w1)\<rparr>"
    by simp
  with soon have "cooldown_active ctl1 w2 svc"
    by (simp add: cooldown_active_def last_scaling_def)
  from cooldown_no_execute [OF this second] both show False by simp
qed

text \<open>
  The run that scales \<open>api\<close> at time 1000, repeated at once with identical inputs: the
  first call executes, the second does not.
\<close>

theorem second_call_blocked_witness:
  "t_check (world_at 1000) - t_store (world_at 1000)
     < real_of_int (scaling_cooldown
         (default_controller (Some (constant_model 5)) (Some (fixed_client (Some 2) True))))
   \<and> executed (fst (projr (predict_scaling_decision
         (default_controller (Some (constant_model 5)) (Some (fixed_client (Some 2) True)))
         (world_at 1000) ''api'' steady_metrics))) = Some True
   \<and> executed (fst (projr (predict_scaling_decision
         ((default_controller (Some (constant_model 5)) (Some (fixed_client (Some 2) True)))
             \<lparr>last_scaling_times := [''api'' \<mapsto> 1000]\<rparr>)
         (world_at 1000) ''api'' steady_metrics))) \<noteq> Some True"
proof -
  have soon: "t_check (world_at 1000) - t_store (world_at 1000)
     < real_of_int (scaling_cooldown
         (default_controller (Some (constant_model 5)) (Some (fixed_client (Some 2) True))))"
    by (simp add: world_at_def default_controller_def)
  from second_call_blocked [OF run_executes run_repeated soon] soon show ?thesis
    by (simp add: run_executes run_repeated)
qed

subsection \<open>No model\<close>

text \<open>
  Claim C7 as stated fails: the dictionary returned when no model is loaded has no
  \<open>executed\<close> entry at all (nor \<open>timestamp\<close> or \<open>metrics\<close>), so \<open>executed\<close> is not
  \<open>False\<close>.
\<close>

theorem no_model_has_no_executed_entry:
  "predict_scaling_decision (default_controller None None) (world_at 1000) ''api'' steady_metrics
   = Inr (\<lparr>service_name = ''api'', current_replicas = 1, recommended_replicas = 1,
            confidence = 0, reason = ''No ML model available'',
            action = ''none'', timestamp = None, metrics = None,
            executed = None\<rparr>,
          None, default_controller None None)
   \<and> executed (fst (projr (predict_scaling_decision (default_controller None None)
          (world_at 1000) ''api'' steady_metrics))) \<noteq> Some False"
  by (simp add: eval_simps)

text \<open>
  Claim C7, amended. When no model is loaded, the call returns a recommendation with
  action \<open>none\<close>, confidence 0, the reason \<open>No ML model available\<close>, the current replica
  count as recommendation and no \<open>executed\<close> entry; \<open>scale_deployment\<close> is not awaited and
  \<open>self\<close> is unchanged.
\<close>

theorem no_model_recommendation:
  assumes "scaling_predictor ctl = None"
  shows "\<exists>p. predict_scaling_decision ctl w svc m = Inr (p, None, ctl)
           \<and> action p = ''none'' \<and> confidence p = 0
           \<and> reason p = ''No ML model available''
           \<and> recommended_replicas p = current_replicas p
           \<and> executed p = None"
  using assms by (simp add: psd_no_model)

theorem no_model_recommendation_witness:
  "scaling_predictor (default_controller None None) = None
   \<and> (\<exists>p. predict_scaling_decision (default_controller None None) (world_at 1000) ''api'' []
             = Inr (p, None, default_controller None None)
           \<and> action p = ''none'' \<and> confidence p = 0
           \<and> reason p = ''No ML model available''
           \<and> recommended_replicas p = current_replicas p
           \<and> executed p = None)"
proof -
  have h: "scaling_predictor (default_controller None None) = None"
    by (simp add: default_controller_def)
  from no_model_recommendation [OF h] h show ?thesis by simp
qed

subsection \<open>The confidence value\<close>

text \<open>
  Claim C10. Whenever a model is loaded and a dictionary is returned, its confidence lies
  between 0.5 and 0.95: it is never below 0.5, so a threshold of at most 0.5 always lets
  the confidence check pass, and it never reaches 1.
\<close>

theorem confidence_in_band:
  assumes "scaling_predictor ctl \<noteq> None"
    and "predict_scaling_decision ctl w svc m = Inr (p, d, ctl')"
  shows "1 / 2 \<le> confidence p \<and> confidence p \<le> 95 / 100 \<and> confidence p < 1
         \<and> (confidence_threshold ctl \<le> 1 / 2 \<longrightarrow> confidence_threshold ctl \<le> confidence p)"
proof -
  from assms(1) obtain model where Some: "scaling_predictor ctl = Some model" by auto
  from psd_fields [OF Some assms(2)] obtain cm
    where "confidence p = calc_confidence (prepare_features w cm)" by auto
  with calc_confidence_bounds [of "prepare_features w cm"] show ?thesis by simp
qed

text \<open>A controller whose threshold is 0.5, on steady metrics: the confidence is 0.95.\<close>

theorem confidence_in_band_witness:
  "scaling_predictor ((default_controller (Some (constant_model 5))
      (Some (fixed_client (Some 2) True)))\<lparr>confidence_threshold := 1 / 2\<rparr>) \<noteq> None
   \<and> confidence_threshold ((default_controller (Some (constant_model 5))
      (Some (fixed_client (Some 2) True)))\<lparr>confidence_threshold := 1 / 2\<rparr>) \<le> 1 / 2
   \<and> confidence (fst (projr (predict_scaling_decision
        ((default_controller (Some (constant_model 5)) (Some (fixed_client (Some 2) True)))
           \<lparr>confidence_threshold := 1 / 2\<rparr>)
        (world_at 1000) ''api'' steady_metrics))) = 95 / 100"
proof -
  have h: "scaling_predictor ((default_controller (Some (constant_model 5))
      (Some (fixed_client (Some 2) True)))\<lparr>confidence_threshold := 1 / 2\<rparr>) \<noteq> None"
    by (simp add: default_controller_def)
  have t: "confidence_threshold ((default_controller (Some (constant_model 5))
      (Some (fixed_client (Some 2) True)))\<lparr>confidence_threshold := 1 / 2\<rparr>) \<le> 1 / 2"
    by (simp add: default_controller_def)
  from confidence_in_band [OF h run_low_threshold] h t show ?thesis
    by (simp add: run_low_threshold)
qed

section \<open>Properties of the worker tasks\<close>

subsection \<open>\<open>check_metric_alerts\<close>\<close>



subsection \<open>\<open>process_metrics\<close> on an empty batch\<close>

lemma np_max_Nil: "np_max [] = Inl ValueError"
  by (simp add: np_max_def)

text \<open>
  Claim C8 as stated fails: on a batch with no samples \<open>process_metrics\<close> fails with the
  \<open>ValueError\<close> that \<open>np.max\<close> raises on an empty sequence, not with
  \<open>InsufficientDataError\<close>.
\<close>

theorem empty_batch_raises_value_error:
  "process_metrics ''2024-01-01T00:00:00'' never_raises [] ''api''
      [(''cpu_values'', []), (''memory_values'', []), (''request_counts'', []),
       (''error_counts'', [])] = Inl ValueError
   \<and> process_metrics ''2024-01-01T00:00:00'' never_raises [] ''api''
      [(''cpu_values'', []), (''memory_values'', []), (''request_counts'', []),
       (''error_counts'', [])] \<noteq> Inl InsufficientDataError"
  by (simp add: process_metrics_def Let_def dict_get_def np_max_def)

text \<open>
  Claim C8, amended. For every service name, \<open>process_metrics\<close> called with empty or
  missing CPU samples, or empty or missing memory samples, fails with \<open>ValueError\<close>,
  whatever the clock and the broker: it returns no summary and raises no other error.
\<close>

theorem empty_batch_failure:
  assumes "dict_get data ''cpu_values'' [] = [] \<or> dict_get data ''memory_values'' [] = []"
  shows "process_metrics utcnow delay_raises broker svc data = Inl ValueError"
proof (cases "dict_get data ''cpu_values'' [] = []")
  case True
  then show ?thesis by (simp add: process_metrics_def Let_def np_max_Nil)
next
  case False
  with assms have mem: "dict_get data ''memory_values'' [] = []" by simp
  from False obtain y ys where "dict_get data ''cpu_values'' [] = y # ys"
    by (cases "dict_get data ''cpu_values'' []") auto
  with mem show ?thesis by (simp add: process_metrics_def Let_def np_max_Nil np_max_def)
qed

text \<open>A batch without any entry, for a broker that accepts every task.\<close>

theorem empty_batch_failure_witness:
  "(dict_get ([] :: real list dict) ''cpu_values'' [] = []
      \<or> dict_get ([] :: real list dict) ''memory_values'' [] = [])
   \<and> process_metrics ''2024-01-01T00:00:00'' never_raises [] ''api'' [] = Inl ValueError"
proof -
  have h: "dict_get ([] :: real list dict) ''cpu_values'' [] = []
      \<or> dict_get ([] :: real list dict) ''memory_values'' [] = []"
    by (simp add: dict_get_def)
  from empty_batch_failure [OF h] h show ?thesis by simp
qed

subsection \<open>Repeated runs of \<open>process_metrics\<close>\<close>

lemma run_process:
  "process_metrics t never_raises b ''api'' sample_batch =
     Inr (\<lparr>pm_service_name = ''api'', pm_timestamp = t, avg_cpu = 20, max_cpu = 30,
            avg_memory = 50, max_memory = 60, request_count = 300, error_count = 3\<rparr>,
          b @ [CheckMetricAlerts ''api''
             \<lparr>pm_service_name = ''api'', pm_timestamp = t, avg_cpu = 20, max_cpu = 30,
              avg_memory = 50, max_memory = 60, request_count = 300, error_count = 3\<rparr>])"
  by (simp add: process_metrics_def Let_def dict_get_def np_max_def np_mean_def sample_batch_def
      delay_def never_raises_def)

text \<open>
  Claim C9 as stated fails: the returned dictionary carries the time of the call, so two
  runs on the same service and batch five minutes apart return different values; and each
  run enqueues a \<open>check_metric_alerts\<close> task, a change visible outside.
\<close>

theorem process_metrics_timestamp_and_enqueue:
  "process_metrics ''2024-01-01T00:00:00'' never_raises [] ''api'' sample_batch
     \<noteq> process_metrics ''2024-01-01T00:05:00'' never_raises [] ''api'' sample_batch
   \<and> snd (projr (process_metrics ''2024-01-01T00:00:00'' never_raises [] ''api'' sample_batch))
       \<noteq> []"
  by (simp add: run_process)

text \<open>
  Claim C9, amended. Two successful runs on the same service name and batch return
  dictionaries that agree on every entry except \<open>timestamp\<close>, which is the time of each
  call; and each run appends exactly one \<open>check_metric_alerts\<close> task, for the service and
  the dictionary it returns, to the broker.
\<close>

theorem process_metrics_aggregates_deterministic:
  assumes "process_metrics t1 f1 b1 svc data = Inr (pm1, b1')"
    and "process_metrics t2 f2 b2 svc data = Inr (pm2, b2')"
  shows "pm2 = pm1\<lparr>pm_timestamp := t2\<rparr> \<and> pm_timestamp pm1 = t1
         \<and> b1' = b1 @ [CheckMetricAlerts svc pm1] \<and> b2' = b2 @ [CheckMetricAlerts svc pm2]"
  using assms
  by (auto simp: process_metrics_def Let_def delay_def split: sum.splits if_splits)

theorem process_metrics_aggregates_deterministic_witness:
  "process_metrics ''2024-01-01T00:00:00'' never_raises [] ''api'' sample_batch =
     Inr (\<lparr>pm_service_name = ''api'', pm_timestamp = ''2024-01-01T00:00:00'', avg_cpu = 20,
            max_cpu = 30, avg_memory = 50, max_memory = 60, request_count = 300,
            error_count = 3\<rparr>,
          [CheckMetricAlerts ''api''
             \<lparr>pm_service_name = ''api'', pm_timestamp = ''2024-01-01T00:00:00'', avg_cpu = 20,
              max_cpu = 30, avg_memory = 50, max_memory = 60, request_count = 300,
              error_count = 3\<rparr>])
   \<and> \<lparr>pm_service_name = ''api'', pm_timestamp = ''2024-01-01T00:05:00'', avg_cpu = 20,
            max_cpu = 30, avg_memory = 50, max_memory = 60, request_count = 300,
            error_count = 3\<rparr>
     = \<lparr>pm_service_name = ''api'', pm_timestamp = ''2024-01-01T00:00:00'', avg_cpu = 20,
            max_cpu = 30, avg_memory = 50, max_memory = 60, request_count = 300,
            error_count = 3\<rparr>\<lparr>pm_timestamp := ''2024-01-01T00:05:00''\<rparr>"
  using process_metrics_aggregates_deterministic
    [OF run_process [of "''2024-01-01T00:00:00''" "[]"]
        run_process [of "''2024-01-01T00:05:00''" "[]"]]
    run_process [of "''2024-01-01T00:00:00''" "[]"]
  by simp

end
